theory Spec2Isabelle
  imports Main
begin

section \<open>Python values, exceptions and the object heap\<close>

text \<open>
  The module \<^verbatim>\<open>jedi/evaluate/compiled/subprocess/__init__.py\<close> runs the
  compiled analysis in a child process. Every raise of the source is a value
  \<open>Inl e\<close> of a sum type; a Python object whose identity matters (an
  \<^verbatim>\<open>AccessHandle\<close>) lives in a heap and is named by its address.
\<close>

datatype exc_class =
    KeyError | AttributeError | TypeError | AssertionError | IndexError
  | EOFError | UnpicklingError | BrokenPipeError | ReferenceError
  | OtherException string
  | SystemExit | KeyboardInterrupt

datatype pyexc = PyExc (exc_cls: exc_class) (exc_msg: string)

text \<open>\<^verbatim>\<open>isinstance(e, Exception)\<close>: what \<^verbatim>\<open>except Exception\<close> catches.
  \<^verbatim>\<open>SystemExit\<close> and \<^verbatim>\<open>KeyboardInterrupt\<close> derive from
  \<^verbatim>\<open>BaseException\<close> only.\<close>

fun is_Exception :: "pyexc \<Rightarrow> bool" where
  "is_Exception (PyExc SystemExit m) = False"
| "is_Exception (PyExc KeyboardInterrupt m) = False"
| "is_Exception (PyExc c m) = True"

text \<open>Values that cross the pipe. The parameter is how an \<^verbatim>\<open>AccessHandle\<close>
  is held: by its id alone on the wire (\<open>int pyval\<close>), by the address of the
  handle object inside a process (\<open>nat pyval\<close>).\<close>

datatype 'h pyval =
    VNone
  | VInt int
  | VStr string
  | VList "'h pyval list"
  | VExc pyexc
  | VHandle 'h

type_synonym wire = "int pyval"
type_synonym val = "nat pyval"

text \<open>\<^verbatim>\<open>DirectObjectAccess(evaluator, obj)\<close> is a class of another module;
  an object is represented by its identity \<^verbatim>\<open>id(obj)\<close>.\<close>

datatype access = DirectObjectAccess (acc_evaluator: int) (acc_obj: int)

text \<open>An \<^verbatim>\<open>AccessHandle\<close> instance is its instance dictionary: each of the
  three attributes is set or not. \<^verbatim>\<open>_subprocess\<close> refers to an
  \<^verbatim>\<open>_EvaluatorProcess\<close> object, named by a reference.\<close>

record AccessHandle =
  h_access :: "access option"
  h_subprocess :: "nat option"
  h_id :: "int option"

type_synonym heap = "AccessHandle list"

definition alloc :: "heap \<Rightarrow> AccessHandle \<Rightarrow> nat \<times> heap" where
  "alloc hp h = (length hp, hp @ [h])"

text \<open>A reference outside the heap cannot arise in Python; the model answers it
  with \<open>None\<close>, and the operations below turn that into a
  \<^verbatim>\<open>ReferenceError\<close>.\<close>

definition deref :: "heap \<Rightarrow> nat \<Rightarrow> AccessHandle option" where
  "deref hp a = (if a < length hp then Some (hp ! a) else None)"

definition dangling :: pyexc where
  "dangling = PyExc ReferenceError ''no such object''"

section \<open>AccessHandle\<close>

text \<open>\<^verbatim>\<open>AccessHandle.__init__(self, subprocess, access, id_)\<close>\<close>

definition AccessHandle_init :: "nat \<Rightarrow> access \<Rightarrow> int \<Rightarrow> AccessHandle" where
  "AccessHandle_init subprocess acc ident =
     \<lparr>h_access = Some acc, h_subprocess = Some subprocess, h_id = Some ident\<rparr>"

text \<open>\<^verbatim>\<open>add_subprocess(self, subprocess): self._subprocess = subprocess\<close>\<close>

definition add_subprocess :: "heap \<Rightarrow> nat \<Rightarrow> nat \<Rightarrow> pyexc + heap" where
  "add_subprocess hp a subprocess =
     (case deref hp a of
        None \<Rightarrow> Inl dangling
      | Some h \<Rightarrow> Inr (hp[a := h\<lparr>h_subprocess := Some subprocess\<rparr>]))"

text \<open>What an attribute access on a handle yields: one of the three attributes, a
  method of the class, or the thunk \<^verbatim>\<open>compiled_method\<close> closed over the handle
  and the name.\<close>

datatype attr =
    AId int
  | ASubprocess nat
  | AAccess access
  | AMethod string
  | ACompiledMethod nat string

text \<open>\<^verbatim>\<open>AccessHandle.__getattr__(self, name)\<close> up to the construction of the thunk.\<close>

definition AccessHandle_getattr :: "nat \<Rightarrow> string \<Rightarrow> pyexc + attr" where
  "AccessHandle_getattr a name =
     (if name \<in> set [''id'', ''_subprocess'', ''access'']
      then Inl (PyExc AttributeError ''Something went wrong with unpickling'')
      else Inr (ACompiledMethod a name))"

text \<open>The methods the class body defines. Python calls \<^verbatim>\<open>__getattr__\<close> only
  when the normal lookup (instance dictionary, then class) fails.\<close>

definition class_methods :: "string list" where
  "class_methods =
     [''__init__'', ''add_subprocess'', ''__getstate__'', ''__setstate__'', ''__getattr__'']"

definition instance_dict :: "AccessHandle \<Rightarrow> string \<Rightarrow> attr option" where
  "instance_dict h name =
     (if name = ''access'' then map_option AAccess (h_access h)
      else if name = ''_subprocess'' then map_option ASubprocess (h_subprocess h)
      else if name = ''id'' then map_option AId (h_id h)
      else None)"

text \<open>The expression \<^verbatim>\<open>handle.name\<close>.\<close>

definition getattr :: "heap \<Rightarrow> nat \<Rightarrow> string \<Rightarrow> pyexc + attr" where
  "getattr hp a name =
     (case deref hp a of
        None \<Rightarrow> Inl dangling
      | Some h \<Rightarrow>
          (case instance_dict h name of
             Some v \<Rightarrow> Inr v
           | None \<Rightarrow>
               if name \<in> set class_methods then Inr (AMethod name)
               else AccessHandle_getattr a name))"

text \<open>\<^verbatim>\<open>__getstate__(self): return self.id\<close>\<close>

definition getstate :: "heap \<Rightarrow> nat \<Rightarrow> pyexc + int" where
  "getstate hp a =
     (case getattr hp a ''id'' of
        Inl e \<Rightarrow> Inl e
      | Inr (AId i) \<Rightarrow> Inr i
      | Inr _ \<Rightarrow> Inl (PyExc TypeError ''id''))"

text \<open>Unpickling an \<^verbatim>\<open>AccessHandle\<close>: a new object without attributes, then
  \<^verbatim>\<open>__setstate__(self, state): self.id = state\<close>.\<close>

definition setstate :: "AccessHandle \<Rightarrow> int \<Rightarrow> AccessHandle" where
  "setstate h state = h\<lparr>h_id := Some state\<rparr>"

definition new_object :: AccessHandle where
  "new_object = \<lparr>h_access = None, h_subprocess = None, h_id = None\<rparr>"

text \<open>The remote call a thunk issues:
  \<^verbatim>\<open>self._subprocess.get_compiled_method_return(self.id, name, *args, **kwargs)\<close>.
  Python evaluates \<^verbatim>\<open>self._subprocess\<close> first, then \<^verbatim>\<open>self.id\<close>; the result
  names the session, the function and the arguments of the call to make.\<close>

record remote_call =
  rc_subprocess :: nat
  rc_function :: string
  rc_args :: "val list"
  rc_kwargs :: "(string \<times> val) list"

definition compiled_method ::
  "heap \<Rightarrow> nat \<Rightarrow> string \<Rightarrow> val list \<Rightarrow> (string \<times> val) list \<Rightarrow> pyexc + remote_call" where
  "compiled_method hp a name args kwargs =
     (case getattr hp a ''_subprocess'' of
        Inl e \<Rightarrow> Inl e
      | Inr (ASubprocess s) \<Rightarrow>
          (case getattr hp a ''id'' of
             Inl e \<Rightarrow> Inl e
           | Inr (AId i) \<Rightarrow>
               Inr \<lparr>rc_subprocess = s, rc_function = ''get_compiled_method_return'',
                    rc_args = VInt i # VStr name # args, rc_kwargs = kwargs\<rparr>
           | Inr _ \<Rightarrow> Inl (PyExc TypeError ''id''))
      | Inr _ \<Rightarrow> Inl (PyExc TypeError ''_subprocess''))"


section \<open>The handle registry of an endpoint\<close>

text \<open>\<^verbatim>\<open>_EvaluatorProcess\<close>: the evaluator it serves, by identity (the weak reference
  and \<^verbatim>\<open>id(evaluator)\<close> name the same object while it is alive), and the dictionary
  \<^verbatim>\<open>_handles\<close> from ids to handle objects.\<close>

record EvaluatorProcess =
  ep_evaluator_id :: int
  handles :: "int \<rightharpoonup> nat"

definition EvaluatorProcess_init :: "int \<Rightarrow> EvaluatorProcess" where
  "EvaluatorProcess_init evaluator = \<lparr>ep_evaluator_id = evaluator, handles = Map.empty\<rparr>"

text \<open>\<^verbatim>\<open>get_access_handle(self, id_): return self._handles[id_]\<close>\<close>

definition get_access_handle :: "'a EvaluatorProcess_scheme \<Rightarrow> int \<Rightarrow> pyexc + nat" where
  "get_access_handle ep ident =
     (case handles ep ident of
        None \<Rightarrow> Inl (PyExc KeyError ''_handles'')
      | Some a \<Rightarrow> Inr a)"

text \<open>\<^verbatim>\<open>set_access_handle(self, handle): self._handles[handle.id] = handle\<close>\<close>

definition set_access_handle ::
  "heap \<Rightarrow> 'a EvaluatorProcess_scheme \<Rightarrow> nat \<Rightarrow> pyexc + 'a EvaluatorProcess_scheme" where
  "set_access_handle hp ep handle =
     (case getattr hp handle ''id'' of
        Inl e \<Rightarrow> Inl e
      | Inr (AId i) \<Rightarrow> Inr (ep\<lparr>handles := (handles ep)(i \<mapsto> handle)\<rparr>)
      | Inr _ \<Rightarrow> Inl (PyExc TypeError ''id''))"

text \<open>\<^verbatim>\<open>get_or_create_access_handle(self, obj)\<close>; \<open>self\<close> is the reference to the
  endpoint object, stored in a handle it creates.\<close>

definition get_or_create_access_handle ::
  "nat \<Rightarrow> 'a EvaluatorProcess_scheme \<Rightarrow> heap \<Rightarrow> int
     \<Rightarrow> pyexc + (nat \<times> 'a EvaluatorProcess_scheme \<times> heap)" where
  "get_or_create_access_handle self ep hp obj =
     (let ident = obj in
      case get_access_handle ep ident of
        Inr a \<Rightarrow> Inr (a, ep, hp)
      | Inl e \<Rightarrow>
          if exc_cls e = KeyError then
            (let acc = DirectObjectAccess (ep_evaluator_id ep) obj;
                 (handle, hp') = alloc hp (AccessHandle_init self acc ident)
             in case set_access_handle hp' ep handle of
                  Inl e' \<Rightarrow> Inl e'
                | Inr ep' \<Rightarrow> Inr (handle, ep', hp'))
          else Inl e)"

section \<open>Pickling\<close>

text \<open>\<^verbatim>\<open>pickle.dump\<close> on a value: an \<^verbatim>\<open>AccessHandle\<close> is reduced to the state
  \<^verbatim>\<open>__getstate__\<close> returns, its id. The wire value is a tree: sharing inside one
  message is not represented.\<close>

fun pickle_dump :: "heap \<Rightarrow> val \<Rightarrow> pyexc + wire"
  and pickle_dump_list :: "heap \<Rightarrow> val list \<Rightarrow> pyexc + wire list" where
  "pickle_dump hp VNone = Inr VNone"
| "pickle_dump hp (VInt n) = Inr (VInt n)"
| "pickle_dump hp (VStr s) = Inr (VStr s)"
| "pickle_dump hp (VExc e) = Inr (VExc e)"
| "pickle_dump hp (VList vs) =
     (case pickle_dump_list hp vs of Inl e \<Rightarrow> Inl e | Inr ws \<Rightarrow> Inr (VList ws))"
| "pickle_dump hp (VHandle a) =
     (case getstate hp a of Inl e \<Rightarrow> Inl e | Inr i \<Rightarrow> Inr (VHandle i))"
| "pickle_dump_list hp [] = Inr []"
| "pickle_dump_list hp (v # vs) =
     (case pickle_dump hp v of
        Inl e \<Rightarrow> Inl e
      | Inr w \<Rightarrow>
          (case pickle_dump_list hp vs of Inl e \<Rightarrow> Inl e | Inr ws \<Rightarrow> Inr (w # ws)))"

text \<open>The unpickler's \<^verbatim>\<open>BUILD\<close> step for an \<^verbatim>\<open>AccessHandle\<close>: a new object, then
  \<^verbatim>\<open>__setstate__\<close>.\<close>

definition build :: "heap \<Rightarrow> int \<Rightarrow> nat \<times> heap" where
  "build hp state = alloc hp (setstate new_object state)"

text \<open>\<^verbatim>\<open>pickle.load\<close> with the standard unpickler.\<close>

fun pickle_load :: "heap \<Rightarrow> wire \<Rightarrow> val \<times> heap"
  and pickle_load_list :: "heap \<Rightarrow> wire list \<Rightarrow> val list \<times> heap" where
  "pickle_load hp VNone = (VNone, hp)"
| "pickle_load hp (VInt n) = (VInt n, hp)"
| "pickle_load hp (VStr s) = (VStr s, hp)"
| "pickle_load hp (VExc e) = (VExc e, hp)"
| "pickle_load hp (VList ws) = (case pickle_load_list hp ws of (vs, hp') \<Rightarrow> (VList vs, hp'))"
| "pickle_load hp (VHandle i) = (case build hp i of (a, hp') \<Rightarrow> (VHandle a, hp'))"
| "pickle_load_list hp [] = ([], hp)"
| "pickle_load_list hp (w # ws) =
     (case pickle_load hp w of
        (v, hp') \<Rightarrow> (case pickle_load_list hp' ws of (vs, hp'') \<Rightarrow> (v # vs, hp'')))"

section \<open>_ModifiedUnpickler\<close>

text \<open>\<^verbatim>\<open>_ModifiedUnpickler.get_access_handle(self, access_handle)\<close>;
  \<open>subprocess\<close> is the reference \<^verbatim>\<open>self._subprocess\<close> and \<open>ep\<close> the object it
  names.\<close>

definition Unpickler_get_access_handle ::
  "nat \<Rightarrow> 'a EvaluatorProcess_scheme \<Rightarrow> heap \<Rightarrow> nat
     \<Rightarrow> pyexc + (nat \<times> 'a EvaluatorProcess_scheme \<times> heap)" where
  "Unpickler_get_access_handle subprocess ep hp access_handle =
     (case getattr hp access_handle ''id'' of
        Inl e \<Rightarrow> Inl e
      | Inr (AId i) \<Rightarrow>
          (case get_access_handle ep i of
             Inr existing \<Rightarrow> Inr (existing, ep, hp)
           | Inl e \<Rightarrow>
               if exc_cls e = KeyError then
                 (case add_subprocess hp access_handle subprocess of
                    Inl e' \<Rightarrow> Inl e'
                  | Inr hp' \<Rightarrow>
                      (case set_access_handle hp' ep access_handle of
                         Inl e' \<Rightarrow> Inl e'
                       | Inr ep' \<Rightarrow> Inr (access_handle, ep', hp')))
               else Inl e)
      | Inr _ \<Rightarrow> Inl (PyExc TypeError ''id''))"

text \<open>\<^verbatim>\<open>load_build\<close>: the inherited step, then the top of the stack is exchanged
  when it is an \<^verbatim>\<open>AccessHandle\<close>.\<close>

definition load_build ::
  "nat \<Rightarrow> 'a EvaluatorProcess_scheme \<Rightarrow> heap \<Rightarrow> int
     \<Rightarrow> pyexc + (nat \<times> 'a EvaluatorProcess_scheme \<times> heap)" where
  "load_build subprocess ep hp state =
     (case build hp state of
        (tos, hp') \<Rightarrow> Unpickler_get_access_handle subprocess ep hp' tos)"

text \<open>\<^verbatim>\<open>_ModifiedUnpickler(subprocess, stdout).load()\<close> on one pickled value.\<close>

fun ModifiedUnpickler_load ::
  "nat \<Rightarrow> 'a EvaluatorProcess_scheme \<Rightarrow> heap \<Rightarrow> wire
     \<Rightarrow> pyexc + (val \<times> 'a EvaluatorProcess_scheme \<times> heap)"
  and ModifiedUnpickler_load_list ::
  "nat \<Rightarrow> 'a EvaluatorProcess_scheme \<Rightarrow> heap \<Rightarrow> wire list
     \<Rightarrow> pyexc + (val list \<times> 'a EvaluatorProcess_scheme \<times> heap)" where
  "ModifiedUnpickler_load s ep hp VNone = Inr (VNone, ep, hp)"
| "ModifiedUnpickler_load s ep hp (VInt n) = Inr (VInt n, ep, hp)"
| "ModifiedUnpickler_load s ep hp (VStr t) = Inr (VStr t, ep, hp)"
| "ModifiedUnpickler_load s ep hp (VExc e) = Inr (VExc e, ep, hp)"
| "ModifiedUnpickler_load s ep hp (VList ws) =
     (case ModifiedUnpickler_load_list s ep hp ws of
        Inl e \<Rightarrow> Inl e
      | Inr (vs, ep', hp') \<Rightarrow> Inr (VList vs, ep', hp'))"
| "ModifiedUnpickler_load s ep hp (VHandle i) =
     (case load_build s ep hp i of
        Inl e \<Rightarrow> Inl e
      | Inr (a, ep', hp') \<Rightarrow> Inr (VHandle a, ep', hp'))"
| "ModifiedUnpickler_load_list s ep hp [] = Inr ([], ep, hp)"
| "ModifiedUnpickler_load_list s ep hp (w # ws) =
     (case ModifiedUnpickler_load s ep hp w of
        Inl e \<Rightarrow> Inl e
      | Inr (v, ep', hp') \<Rightarrow>
          (case ModifiedUnpickler_load_list s ep' hp' ws of
             Inl e \<Rightarrow> Inl e
           | Inr (vs, ep'', hp'') \<Rightarrow> Inr (v # vs, ep'', hp'')))"


text \<open>Decoding a \<^verbatim>\<open>CallResponse\<close>, the pair of the failure flag and the payload.\<close>

definition load_response ::
  "nat \<Rightarrow> 'a EvaluatorProcess_scheme \<Rightarrow> heap \<Rightarrow> bool \<times> wire
     \<Rightarrow> pyexc + ((bool \<times> val) \<times> 'a EvaluatorProcess_scheme \<times> heap)" where
  "load_response s ep hp response =
     (case response of
        (is_exception, w) \<Rightarrow>
          (case ModifiedUnpickler_load s ep hp w of
             Inl e \<Rightarrow> Inl e
           | Inr (v, ep', hp') \<Rightarrow> Inr ((is_exception, v), ep', hp')))"


section \<open>The worker: Listener\<close>

text \<open>Modelled from the spec: the class \<^verbatim>\<open>Evaluator\<close> of \<^verbatim>\<open>jedi.evaluate\<close> is not
  part of this module. On the worker side a session owns its own registry of handles;
  \<^verbatim>\<open>evaluator.compiled_subprocess\<close> is that registry, empty in a new evaluator.\<close>

record Evaluator =
  compiled_subprocess :: EvaluatorProcess

definition Evaluator_new :: "int \<Rightarrow> Evaluator" where
  "Evaluator_new ident = \<lparr>compiled_subprocess = EvaluatorProcess_init ident\<rparr>"

text \<open>\<^verbatim>\<open>Listener\<close>: the dictionary \<^verbatim>\<open>_evaluators\<close> and the heap of the worker
  process. The attribute \<^verbatim>\<open>_process\<close> is never read and is left out.\<close>

record Listener =
  evaluators :: "int \<rightharpoonup> Evaluator"
  l_heap :: heap

definition Listener_init :: Listener where
  "Listener_init = \<lparr>evaluators = Map.empty, l_heap = []\<rparr>"

text \<open>What a target function is applied to: \<^verbatim>\<open>function(evaluator, *args, **kwargs)\<close>
  passes the evaluator object first, named here by the key under which the listener
  holds it.\<close>

datatype pyarg = EvaluatorArg int | Val val

text \<open>The functions of the module \<^verbatim>\<open>functions\<close> are not part of this module: a
  catalog gives, for each name, what the call does to the worker and what it returns or
  raises.\<close>

type_synonym pyfunction =
  "pyarg list \<Rightarrow> (string \<times> val) list \<Rightarrow> Listener \<Rightarrow> (pyexc + val) \<times> Listener"

type_synonym catalog = "string \<Rightarrow> pyfunction"

text \<open>\<^verbatim>\<open>_get_evaluator(self, function, evaluator_id)\<close>\<close>

definition Listener_get_evaluator :: "Listener \<Rightarrow> int \<Rightarrow> Evaluator \<times> Listener" where
  "Listener_get_evaluator l evaluator_id =
     (case evaluators l evaluator_id of
        Some evaluator \<Rightarrow> (evaluator, l)
      | None \<Rightarrow>
          (let evaluator = Evaluator_new evaluator_id
           in (evaluator, l\<lparr>evaluators := (evaluators l)(evaluator_id \<mapsto> evaluator)\<rparr>)))"

text \<open>One step of the two loops of \<^verbatim>\<open>_run\<close> that exchange handles: an argument that
  is an \<^verbatim>\<open>AccessHandle\<close> becomes
  \<^verbatim>\<open>evaluator.compiled_subprocess.get_access_handle(arg.id)\<close>.\<close>

definition exchange_handle :: "heap \<Rightarrow> EvaluatorProcess \<Rightarrow> val \<Rightarrow> pyexc + val" where
  "exchange_handle hp ep arg =
     (case arg of
        VHandle a \<Rightarrow>
          (case getattr hp a ''id'' of
             Inl e \<Rightarrow> Inl e
           | Inr (AId i) \<Rightarrow>
               (case get_access_handle ep i of
                  Inl e \<Rightarrow> Inl e
                | Inr r \<Rightarrow> Inr (VHandle r))
           | Inr _ \<Rightarrow> Inl (PyExc TypeError ''id''))
      | _ \<Rightarrow> Inr arg)"

fun exchange_args :: "heap \<Rightarrow> EvaluatorProcess \<Rightarrow> val list \<Rightarrow> pyexc + val list" where
  "exchange_args hp ep [] = Inr []"
| "exchange_args hp ep (arg # args) =
     (case exchange_handle hp ep arg of
        Inl e \<Rightarrow> Inl e
      | Inr arg' \<Rightarrow>
          (case exchange_args hp ep args of
             Inl e \<Rightarrow> Inl e
           | Inr args' \<Rightarrow> Inr (arg' # args')))"

fun exchange_kwargs ::
  "heap \<Rightarrow> EvaluatorProcess \<Rightarrow> (string \<times> val) list \<Rightarrow> pyexc + (string \<times> val) list" where
  "exchange_kwargs hp ep [] = Inr []"
| "exchange_kwargs hp ep ((key, v) # kwargs) =
     (case exchange_handle hp ep v of
        Inl e \<Rightarrow> Inl e
      | Inr v' \<Rightarrow>
          (case exchange_kwargs hp ep kwargs of
             Inl e \<Rightarrow> Inl e
           | Inr kwargs' \<Rightarrow> Inr ((key, v') # kwargs')))"

text \<open>\<^verbatim>\<open>_run(self, evaluator_id, function, args, kwargs)\<close>. The function arrives as
  the name it was pickled by, or \<open>None\<close>.\<close>

definition Listener_run ::
  "catalog \<Rightarrow> Listener \<Rightarrow> int option \<Rightarrow> string option \<Rightarrow> val list \<Rightarrow> (string \<times> val) list
     \<Rightarrow> (pyexc + val) \<times> Listener" where
  "Listener_run F l evaluator_id function args kwargs =
     (case evaluator_id of
        None \<Rightarrow>
          (case function of
             None \<Rightarrow> (Inl (PyExc TypeError ''NoneType object is not callable''), l)
           | Some f \<Rightarrow> F f (map Val args) kwargs l)
      | Some sid \<Rightarrow>
          (case function of
             None \<Rightarrow>
               (case evaluators l sid of
                  None \<Rightarrow> (Inl (PyExc KeyError ''_evaluators''), l)
                | Some _ \<Rightarrow> (Inr VNone, l\<lparr>evaluators := (evaluators l)(sid := None)\<rparr>))
           | Some f \<Rightarrow>
               (case Listener_get_evaluator l sid of
                  (evaluator, l') \<Rightarrow>
                    (case exchange_args (l_heap l') (compiled_subprocess evaluator) args of
                       Inl e \<Rightarrow> (Inl e, l')
                     | Inr args' \<Rightarrow>
                         (case exchange_kwargs (l_heap l') (compiled_subprocess evaluator) kwargs of
                            Inl e \<Rightarrow> (Inl e, l')
                          | Inr kwargs' \<Rightarrow>
                              F f (EvaluatorArg sid # map Val args') kwargs' l')))))"

text \<open>A \<^verbatim>\<open>CallRequest\<close> on the wire, and a \<^verbatim>\<open>CallResponse\<close>.\<close>

type_synonym request = "int option \<times> string option \<times> wire list \<times> (string \<times> wire) list"
type_synonym response = "bool \<times> wire"


text \<open>How \<^verbatim>\<open>listen\<close> ends: \<^verbatim>\<open>exit(1)\<close>, or an exception nothing catches.\<close>

datatype ending = Exit int | Uncaught pyexc

fun pickle_load_kwargs :: "heap \<Rightarrow> (string \<times> wire) list \<Rightarrow> (string \<times> val) list \<times> heap" where
  "pickle_load_kwargs hp [] = ([], hp)"
| "pickle_load_kwargs hp ((key, w) # kws) =
     (case pickle_load hp w of
        (v, hp') \<Rightarrow>
          (case pickle_load_kwargs hp' kws of (kvs, hp'') \<Rightarrow> ((key, v) # kvs, hp'')))"

text \<open>\<^verbatim>\<open>pickle.dump(result, file=stdout)\<close>.\<close>

definition dump_result :: "Listener \<Rightarrow> bool \<times> val \<Rightarrow> ending + (response \<times> Listener)" where
  "dump_result l result =
     (case pickle_dump (l_heap l) (snd result) of
        Inl e \<Rightarrow> Inl (Uncaught e)
      | Inr w \<Rightarrow> Inr ((fst result, w), l))"

text \<open>The body of the loop of \<^verbatim>\<open>listen\<close> once \<^verbatim>\<open>pickle.load\<close> has returned (it
  has built the arguments in the worker's heap): \<^verbatim>\<open>_run\<close> under
  \<^verbatim>\<open>except Exception\<close>, then the response is written.\<close>

definition serve :: "catalog \<Rightarrow> Listener \<Rightarrow> request \<Rightarrow> ending + (response \<times> Listener)" where
  "serve F l payload =
     (case payload of
        (evaluator_id, function, wargs, wkwargs) \<Rightarrow>
          (case pickle_load_list (l_heap l) wargs of
             (args, hp1) \<Rightarrow>
               (case pickle_load_kwargs hp1 wkwargs of
                  (kwargs, hp2) \<Rightarrow>
                    (case Listener_run F (l\<lparr>l_heap := hp2\<rparr>) evaluator_id function args kwargs of
                       (Inr v, l') \<Rightarrow> dump_result l' (False, v)
                     | (Inl e, l') \<Rightarrow>
                         if is_Exception e then dump_result l' (True, VExc e)
                         else Inl (Uncaught e)))))"


section \<open>The caller: _Subprocess and _CompiledSubprocess\<close>

text \<open>What crosses the pipe, in the order the caller sees it: a ghost log, written by
  \<^verbatim>\<open>_send\<close> only, that the properties of the protocol are stated on.\<close>

datatype event = Sent request | Received response

text \<open>The child process as the parent holds it: not yet started (the property
  \<^verbatim>\<open>_process\<close> is memoized and spawns it on first use), or started, with the worker's
  state (\<open>None\<close> once it has ended) and the responses written to its standard
  output that the parent has not read yet.\<close>

datatype popen = NotStarted | Child "Listener option" "response list"

record Subprocess =
  sp_args :: "string list"
  sp_process :: popen
  sp_log :: "event list"

definition Subprocess_init :: "string list \<Rightarrow> Subprocess" where
  "Subprocess_init arguments = \<lparr>sp_args = arguments, sp_process = NotStarted, sp_log = []\<rparr>"

text \<open>The property \<^verbatim>\<open>_process\<close>.\<close>

definition process :: "'a Subprocess_scheme \<Rightarrow> 'a Subprocess_scheme" where
  "process sp =
     (case sp_process sp of
        NotStarted \<Rightarrow> sp\<lparr>sp_process := Child (Some Listener_init) []\<rparr>
      | Child w out \<Rightarrow> sp)"

text \<open>\<^verbatim>\<open>EvaluatorSubprocess\<close>: an \<^verbatim>\<open>_EvaluatorProcess\<close> with the flag \<^verbatim>\<open>_used\<close> and
  a reference to the \<^verbatim>\<open>_CompiledSubprocess\<close> it calls through.\<close>

record EvaluatorSubprocess = EvaluatorProcess +
  used :: bool
  es_compiled_subprocess :: nat

definition EvaluatorSubprocess_init :: "int \<Rightarrow> nat \<Rightarrow> EvaluatorSubprocess" where
  "EvaluatorSubprocess_init evaluator cs =
     \<lparr>ep_evaluator_id = evaluator, handles = Map.empty, used = False,
      es_compiled_subprocess = cs\<rparr>"

text \<open>The objects of the calling process that a call can change: the handles and the
  sessions, each named by a reference.\<close>

record memory =
  m_heap :: heap
  m_sessions :: "nat \<rightharpoonup> EvaluatorSubprocess"

text \<open>The argument \<^verbatim>\<open>unpickler\<close> of \<^verbatim>\<open>_send\<close>: \<^verbatim>\<open>pickle.load\<close>, or
  \<^verbatim>\<open>lambda stdout: _ModifiedUnpickler(self, stdout).load()\<close> for a session.\<close>

datatype unpickler = Pickle_load | ModifiedUnpickler nat

definition unpickle :: "unpickler \<Rightarrow> memory \<Rightarrow> response \<Rightarrow> pyexc + ((bool \<times> val) \<times> memory)" where
  "unpickle u m r =
     (case u of
        Pickle_load \<Rightarrow>
          (case pickle_load (m_heap m) (snd r) of
             (v, hp) \<Rightarrow> Inr ((fst r, v), m\<lparr>m_heap := hp\<rparr>))
      | ModifiedUnpickler s \<Rightarrow>
          (case m_sessions m s of
             None \<Rightarrow> Inl dangling
           | Some es \<Rightarrow>
               (case load_response s es (m_heap m) r of
                  Inl e \<Rightarrow> Inl e
                | Inr (result, es', hp) \<Rightarrow>
                    Inr (result, m\<lparr>m_heap := hp, m_sessions := (m_sessions m)(s \<mapsto> es')\<rparr>))))"

fun pickle_dump_kwargs ::
  "heap \<Rightarrow> (string \<times> val) list \<Rightarrow> pyexc + (string \<times> wire) list" where
  "pickle_dump_kwargs hp [] = Inr []"
| "pickle_dump_kwargs hp ((key, v) # kvs) =
     (case pickle_dump hp v of
        Inl e \<Rightarrow> Inl e
      | Inr w \<Rightarrow>
          (case pickle_dump_kwargs hp kvs of
             Inl e \<Rightarrow> Inl e
           | Inr kws \<Rightarrow> Inr ((key, w) # kws)))"

text \<open>Pickling the tuple \<^verbatim>\<open>data = evaluator_id, function, args, kwargs\<close>; a function is
  pickled by its name.\<close>

definition pickle_dump_data ::
  "heap \<Rightarrow> int option \<Rightarrow> string option \<Rightarrow> val list \<Rightarrow> (string \<times> val) list \<Rightarrow> pyexc + request" where
  "pickle_dump_data hp evaluator_id function args kwargs =
     (case pickle_dump_list hp args of
        Inl e \<Rightarrow> Inl e
      | Inr wargs \<Rightarrow>
          (case pickle_dump_kwargs hp kwargs of
             Inl e \<Rightarrow> Inl e
           | Inr wkwargs \<Rightarrow> Inr (evaluator_id, function, wargs, wkwargs)))"

text \<open>\<^verbatim>\<open>raise result\<close>\<close>

definition raise_result :: "val \<Rightarrow> pyexc" where
  "raise_result result =
     (case result of
        VExc e \<Rightarrow> e
      | _ \<Rightarrow> PyExc TypeError ''exceptions must derive from BaseException'')"

text \<open>\<^verbatim>\<open>_send(self, evaluator_id, function, args, kwargs, unpickler)\<close>. A write to a
  child that has ended raises \<^verbatim>\<open>BrokenPipeError\<close>. Once the request is written the
  worker runs the body of its loop on it: it writes one response or ends. The read then
  finds a response, or the end of the stream (\<^verbatim>\<open>EOFError\<close>) when the child has ended
  and nothing is left to read.\<close>

definition Subprocess_send ::
  "catalog \<Rightarrow> 'a Subprocess_scheme \<Rightarrow> memory \<Rightarrow> int option \<Rightarrow> string option \<Rightarrow> val list
     \<Rightarrow> (string \<times> val) list \<Rightarrow> unpickler option
     \<Rightarrow> (pyexc + val) \<times> 'a Subprocess_scheme \<times> memory" where
  "Subprocess_send F self m evaluator_id function args kwargs unpickler =
     (let sp = process self in
      case pickle_dump_data (m_heap m) evaluator_id function args kwargs of
        Inl e \<Rightarrow> (Inl e, sp, m)
      | Inr data \<Rightarrow>
          (case sp_process sp of
             NotStarted \<Rightarrow> (Inl dangling, sp, m)
           | Child None out \<Rightarrow> (Inl (PyExc BrokenPipeError ''Broken pipe''), sp, m)
           | Child (Some l) out \<Rightarrow>
               (let (w, out') =
                      (case serve F l data of
                         Inl t \<Rightarrow> (None, out)
                       | Inr (r, l') \<Rightarrow> (Some l', out @ [r]));
                    sp1 = sp\<lparr>sp_process := Child w out', sp_log := sp_log sp @ [Sent data]\<rparr>
                in case unpickler of
                     None \<Rightarrow> (Inl (PyExc TypeError ''NoneType object is not callable''), sp1, m)
                   | Some u \<Rightarrow>
                       (case out' of
                          [] \<Rightarrow> (Inl (PyExc EOFError ''Ran out of input''), sp1, m)
                        | r # rest \<Rightarrow>
                            (let sp2 = sp1\<lparr>sp_process := Child w rest,
                                           sp_log := sp_log sp1 @ [Received r]\<rparr>
                             in case unpickle u m r of
                                  Inl e \<Rightarrow> (Inl e, sp2, m)
                                | Inr ((is_exception, result), m') \<Rightarrow>
                                    if is_exception then (Inl (raise_result result), sp2, m')
                                    else (Inr result, sp2, m'))))))"

text \<open>\<^verbatim>\<open>terminate\<close> and \<^verbatim>\<open>kill\<close> end the child.\<close>

definition terminate :: "'a Subprocess_scheme \<Rightarrow> 'a Subprocess_scheme" where
  "terminate self =
     (case sp_process (process self) of
        NotStarted \<Rightarrow> process self
      | Child w out \<Rightarrow> (process self)\<lparr>sp_process := Child None out\<rparr>)"

definition kill :: "'a Subprocess_scheme \<Rightarrow> 'a Subprocess_scheme" where
  "kill self = terminate self"

text \<open>\<^verbatim>\<open>_CompiledSubprocess\<close>: a \<^verbatim>\<open>_Subprocess\<close> with the deque
  \<^verbatim>\<open>_evaluator_deletion_queue\<close>; \<^verbatim>\<open>append\<close> adds at the right end and \<^verbatim>\<open>pop\<close>
  removes from the right end.\<close>

record CompiledSubprocess = Subprocess +
  evaluator_deletion_queue :: "int list"

text \<open>\<^verbatim>\<open>_CompiledSubprocess.__init__(self, executable)\<close>; the path of
  \<^verbatim>\<open>__main__.py\<close> and the directory above \<^verbatim>\<open>parso\<close> depend on the installation.\<close>

definition CompiledSubprocess_init :: "string \<Rightarrow> string \<Rightarrow> string \<Rightarrow> CompiledSubprocess" where
  "CompiledSubprocess_init main_path parso_dir executable =
     \<lparr>sp_args = [executable, main_path, parso_dir], sp_process = NotStarted, sp_log = [],
      evaluator_deletion_queue = []\<rparr>"

text \<open>\<^verbatim>\<open>delete_evaluator(self, evaluator_id)\<close>\<close>

definition delete_evaluator :: "CompiledSubprocess \<Rightarrow> int \<Rightarrow> CompiledSubprocess" where
  "delete_evaluator self evaluator_id =
     self\<lparr>evaluator_deletion_queue := evaluator_deletion_queue self @ [evaluator_id]\<rparr>"

text \<open>The loop \<^verbatim>\<open>while True\<close> of \<^verbatim>\<open>run\<close>: \<^verbatim>\<open>pop()\<close> on the empty deque raises
  \<^verbatim>\<open>IndexError\<close>, which leaves the loop; otherwise the id popped is sent with the
  function \<open>None\<close>. An exception of \<^verbatim>\<open>_send\<close> leaves \<^verbatim>\<open>run\<close>.\<close>

function delete_old_evaluators ::
  "catalog \<Rightarrow> CompiledSubprocess \<Rightarrow> memory \<Rightarrow> pyexc option \<times> CompiledSubprocess \<times> memory" where
  "delete_old_evaluators F self m =
     (if evaluator_deletion_queue self = [] then (None, self, m)
      else
        (case Subprocess_send F
                (self\<lparr>evaluator_deletion_queue := butlast (evaluator_deletion_queue self)\<rparr>) m
                (Some (last (evaluator_deletion_queue self))) None [] [] (Some Pickle_load) of
           (Inl e, self', m') \<Rightarrow> (Some e, self', m')
         | (Inr r, self', m') \<Rightarrow> delete_old_evaluators F self' m'))"
  by pat_completeness auto

lemma Subprocess_send_queue:
  "evaluator_deletion_queue (fst (snd (Subprocess_send F sp m i f args kwargs u))) =
     evaluator_deletion_queue sp"
  by (simp add: Subprocess_send_def process_def Let_def
      split: sum.splits popen.splits option.splits list.splits prod.splits)

termination delete_old_evaluators
  apply (relation "measure (\<lambda>(F, self, m). length (evaluator_deletion_queue self))")
   apply simp
  subgoal for F self m x xa y xb ya
    using Subprocess_send_queue [of F
        "self\<lparr>evaluator_deletion_queue := butlast (evaluator_deletion_queue self)\<rparr>" m
        "Some (last (evaluator_deletion_queue self))" None "[]" "[]" "Some Pickle_load"]
    by (cases "evaluator_deletion_queue self" rule: rev_cases)
      (auto simp: fst_def snd_def split: prod.splits)
  done

text \<open>An attribute of the module \<^verbatim>\<open>functions\<close>: a function, pickled by its name, or
  an object that is not callable.\<close>

datatype pyobject = Function string | Object string

text \<open>\<^verbatim>\<open>_get_function(name)\<close>, that is \<^verbatim>\<open>getattr(functions, name)\<close>, on the table of
  the module's attributes.\<close>

definition get_function :: "(string \<rightharpoonup> pyobject) \<Rightarrow> string \<Rightarrow> pyexc + pyobject" where
  "get_function functions name =
     (case functions name of
        None \<Rightarrow> Inl (PyExc AttributeError name)
      | Some func \<Rightarrow> Inr func)"

text \<open>\<^verbatim>\<open>run(self, evaluator, function, args, kwargs, unpickler)\<close>; the evaluator is
  given by \<^verbatim>\<open>id(evaluator)\<close>.\<close>

definition run ::
  "catalog \<Rightarrow> CompiledSubprocess \<Rightarrow> memory \<Rightarrow> int \<Rightarrow> pyobject \<Rightarrow> val list
     \<Rightarrow> (string \<times> val) list \<Rightarrow> unpickler option
     \<Rightarrow> (pyexc + val) \<times> CompiledSubprocess \<times> memory" where
  "run F self m evaluator function args kwargs unpickler =
     (case delete_old_evaluators F self m of
        (Some e, self', m') \<Rightarrow> (Inl e, self', m')
      | (None, self', m') \<Rightarrow>
          (case function of
             Object n \<Rightarrow> (Inl (PyExc AssertionError []), self', m')
           | Function name \<Rightarrow>
               Subprocess_send F self' m' (Some evaluator) (Some name) args kwargs unpickler))"

text \<open>\<^verbatim>\<open>get_sys_path(self)\<close>\<close>

definition get_sys_path ::
  "catalog \<Rightarrow> CompiledSubprocess \<Rightarrow> memory \<Rightarrow> (pyexc + val) \<times> CompiledSubprocess \<times> memory" where
  "get_sys_path F self m =
     Subprocess_send F self m None (Some ''get_sys_path'') [] [] (Some Pickle_load)"

section \<open>EvaluatorSubprocess\<close>

text \<open>The closure \<^verbatim>\<open>wrapper\<close> that \<^verbatim>\<open>EvaluatorSubprocess.__getattr__\<close> returns for
  the function \<open>func\<close>. \<open>self\<close> is the reference to the session and \<open>cs\<close> the
  object \<^verbatim>\<open>self._compiled_subprocess\<close> names.\<close>

definition wrapper ::
  "catalog \<Rightarrow> nat \<Rightarrow> pyobject \<Rightarrow> val list \<Rightarrow> (string \<times> val) list \<Rightarrow> CompiledSubprocess
     \<Rightarrow> memory \<Rightarrow> (pyexc + val) \<times> CompiledSubprocess \<times> memory" where
  "wrapper F self func args kwargs cs m =
     (case m_sessions m self of
        None \<Rightarrow> (Inl dangling, cs, m)
      | Some es \<Rightarrow>
          (case run F cs (m\<lparr>m_sessions := (m_sessions m)(self \<mapsto> es\<lparr>used := True\<rparr>)\<rparr>)
                  (ep_evaluator_id es) func args kwargs (Some (ModifiedUnpickler self)) of
             (Inl e, cs', m') \<Rightarrow> (Inl e, cs', m')
           | (Inr result, cs', m') \<Rightarrow>
               (case result of
                  VHandle a \<Rightarrow>
                    (case add_subprocess (m_heap m') a self of
                       Inl e \<Rightarrow> (Inl e, cs', m')
                     | Inr hp \<Rightarrow> (Inr result, cs', m'\<lparr>m_heap := hp\<rparr>))
                | _ \<Rightarrow> (Inr result, cs', m'))))"

text \<open>\<^verbatim>\<open>EvaluatorSubprocess.__getattr__(self, name)\<close> followed by the call of the
  closure it returns.\<close>

definition call_method ::
  "catalog \<Rightarrow> (string \<rightharpoonup> pyobject) \<Rightarrow> nat \<Rightarrow> string \<Rightarrow> val list \<Rightarrow> (string \<times> val) list
     \<Rightarrow> CompiledSubprocess \<Rightarrow> memory \<Rightarrow> (pyexc + val) \<times> CompiledSubprocess \<times> memory" where
  "call_method F functions self name args kwargs cs m =
     (case get_function functions name of
        Inl e \<Rightarrow> (Inl e, cs, m)
      | Inr func \<Rightarrow> wrapper F self func args kwargs cs m)"

text \<open>\<^verbatim>\<open>EvaluatorSubprocess.__del__(self)\<close>\<close>

definition EvaluatorSubprocess_del ::
  "EvaluatorSubprocess \<Rightarrow> CompiledSubprocess \<Rightarrow> CompiledSubprocess" where
  "EvaluatorSubprocess_del self cs =
     (if used self then delete_evaluator cs (ep_evaluator_id self) else cs)"

section \<open>get_subprocess\<close>

text \<open>The module's dictionary \<^verbatim>\<open>_subprocesses\<close> and the \<^verbatim>\<open>_CompiledSubprocess\<close>
  objects created so far, named by their position.\<close>

record module_state =
  subprocesses :: "string \<rightharpoonup> nat"
  objects :: "CompiledSubprocess list"

definition module_init :: module_state where
  "module_init = \<lparr>subprocesses = Map.empty, objects = []\<rparr>"

definition get_subprocess ::
  "string \<Rightarrow> string \<Rightarrow> string \<Rightarrow> module_state \<Rightarrow> nat \<times> module_state" where
  "get_subprocess main_path parso_dir executable g =
     (case subprocesses g executable of
        Some sub \<Rightarrow> (sub, g)
      | None \<Rightarrow>
          (let sub = length (objects g)
           in (sub, \<lparr>subprocesses = (subprocesses g)(executable \<mapsto> sub),
                     objects = objects g @ [CompiledSubprocess_init main_path parso_dir executable]\<rparr>)))"

text \<open>A sequence of calls of \<^verbatim>\<open>get_subprocess\<close>, with what each returns.\<close>

fun get_subprocesses ::
  "string \<Rightarrow> string \<Rightarrow> string list \<Rightarrow> module_state \<Rightarrow> nat list \<times> module_state" where
  "get_subprocesses main_path parso_dir [] g = ([], g)"
| "get_subprocesses main_path parso_dir (executable # executables) g =
     (case get_subprocess main_path parso_dir executable g of
        (sub, g') \<Rightarrow>
          (case get_subprocesses main_path parso_dir executables g' of
             (subs, g'') \<Rightarrow> (sub # subs, g'')))"

text \<open>The invariant of the cache: finitely many entries, no two executables share a
  wrapper, and every wrapper created is cached.\<close>

definition cache_inv :: "module_state \<Rightarrow> bool" where
  "cache_inv g \<longleftrightarrow>
     finite (dom (subprocesses g)) \<and>
     inj_on (subprocesses g) (dom (subprocesses g)) \<and>
     subprocesses g ` dom (subprocesses g) = Some ` {..<length (objects g)}"


text \<open>A catalog and a listener for examples: every function returns the list of the
  positional arguments it was called with, the evaluator shown by its key.\<close>

definition echo :: catalog where
  "echo f args kwargs l =
     (Inr (VList (map (\<lambda>a. case a of EvaluatorArg i \<Rightarrow> VInt i | Val v \<Rightarrow> v) args)), l)"

definition listener_example :: Listener where
  "listener_example =
     \<lparr>evaluators = [1 \<mapsto> \<lparr>compiled_subprocess = \<lparr>ep_evaluator_id = 1, handles = [7 \<mapsto> 0]\<rparr>\<rparr>],
      l_heap = [AccessHandle_init 0 (DirectObjectAccess 1 7) 7, setstate new_object 7]\<rparr>"



section \<open>Reading the log of the pipe\<close>

text \<open>The requests written, in order.\<close>

fun requests_of :: "event list \<Rightarrow> request list" where
  "requests_of [] = []"
| "requests_of (Sent r # es) = r # requests_of es"
| "requests_of (Received x # es) = requests_of es"

text \<open>The message that destroys a session: \<^verbatim>\<open>self._send(evaluator_id, None)\<close>.\<close>

definition destroy :: "int \<Rightarrow> request" where
  "destroy evaluator_id = (Some evaluator_id, None, [], [])"

text \<open>Every request written is followed by exactly one response read, before the next
  request is written.\<close>

fun answered :: "event list \<Rightarrow> bool" where
  "answered [] = True"
| "answered (Sent r # Received x # es) = answered es"
| "answered es = False"

text \<open>A session's calls one after the other: each is the closure \<^verbatim>\<open>wrapper\<close> applied to
  a function of the module and its arguments.\<close>

fun wrappers ::
  "catalog \<Rightarrow> nat \<Rightarrow> (pyobject \<times> val list \<times> (string \<times> val) list) list \<Rightarrow> CompiledSubprocess
     \<Rightarrow> memory \<Rightarrow> CompiledSubprocess \<times> memory" where
  "wrappers F self [] cs m = (cs, m)"
| "wrappers F self ((func, args, kwargs) # calls) cs m =
     (case wrapper F self func args kwargs cs m of
        (result, cs', m') \<Rightarrow> wrappers F self calls cs' m')"



section \<open>Properties of AccessHandle\<close>

lemma instance_dict_setstate_new:
  "instance_dict (setstate new_object i) ''_subprocess'' = None"
  "instance_dict (setstate new_object i) ''access'' = None"
  "instance_dict (setstate new_object i) ''id'' = Some (AId i)"
  by (simp_all add: instance_dict_def setstate_def new_object_def)

lemma getattr_unset:
  assumes "deref hp a = Some h"
    and "name \<in> set [''id'', ''_subprocess'', ''access'']"
    and "instance_dict h name = None"
  shows "getattr hp a name =
    Inl (PyExc AttributeError ''Something went wrong with unpickling'')"
proof -
  from assms(2) have "name \<notin> set class_methods"
    by (auto simp: class_methods_def)
  with assms show ?thesis
    by (simp add: getattr_def AccessHandle_getattr_def)
qed

text \<open>
  Claim C10. Reading \<^verbatim>\<open>id\<close>, \<^verbatim>\<open>_subprocess\<close> or \<^verbatim>\<open>access\<close> on a handle whose
  instance dictionary lacks that attribute raises \<^verbatim>\<open>AttributeError\<close> and never
  yields the forwarding thunk. In particular a handle as unpickling leaves it (only
  \<^verbatim>\<open>id\<close> restored by \<^verbatim>\<open>__setstate__\<close>) raises on \<^verbatim>\<open>_subprocess\<close> and on
  \<^verbatim>\<open>access\<close>, and calling any forwarded method on it raises
  \<^verbatim>\<open>AttributeError\<close> instead of producing a remote call.
\<close>

theorem unset_bookkeeping_attribute_raises:
  assumes "deref hp a = Some h"
  shows "(name \<in> set [''id'', ''_subprocess'', ''access''] \<and> instance_dict h name = None \<longrightarrow>
           getattr hp a name =
             Inl (PyExc AttributeError ''Something went wrong with unpickling'') \<and>
           getattr hp a name \<noteq> Inr (ACompiledMethod a name))
       \<and> (h = setstate new_object i \<longrightarrow>
           getattr hp a ''id'' = Inr (AId i) \<and>
           getattr hp a ''_subprocess'' =
             Inl (PyExc AttributeError ''Something went wrong with unpickling'') \<and>
           getattr hp a ''access'' =
             Inl (PyExc AttributeError ''Something went wrong with unpickling'') \<and>
           compiled_method hp a m args kwargs =
             Inl (PyExc AttributeError ''Something went wrong with unpickling''))"
proof -
  have first: "getattr hp a name =
      Inl (PyExc AttributeError ''Something went wrong with unpickling'')"
    if "name \<in> set [''id'', ''_subprocess'', ''access'']" "instance_dict h name = None"
    using getattr_unset [OF assms that] .
  have second: "getattr hp a ''_subprocess'' =
        Inl (PyExc AttributeError ''Something went wrong with unpickling'')"
      "getattr hp a ''access'' =
        Inl (PyExc AttributeError ''Something went wrong with unpickling'')"
      "getattr hp a ''id'' = Inr (AId i)"
    if "h = setstate new_object i"
    using assms that instance_dict_setstate_new [of i]
    by (simp_all add: getattr_def AccessHandle_getattr_def class_methods_def)
  have third: "compiled_method hp a m args kwargs =
        Inl (PyExc AttributeError ''Something went wrong with unpickling'')"
    if "h = setstate new_object i"
    using second(1) [OF that] by (simp add: compiled_method_def)
  show ?thesis
    using first second third by simp
qed

theorem unset_bookkeeping_attribute_raises_witness:
  "getattr [setstate new_object 7] 0 ''access'' =
     Inl (PyExc AttributeError ''Something went wrong with unpickling'')
   \<and> getattr [setstate new_object 7] 0 ''id'' = Inr (AId 7)
   \<and> compiled_method [setstate new_object 7] 0 ''py__name__'' [] [] =
     Inl (PyExc AttributeError ''Something went wrong with unpickling'')"
proof -
  have d: "deref [setstate new_object 7] 0 = Some (setstate new_object 7)"
    by (simp add: deref_def)
  have n: "instance_dict (setstate new_object 7) ''access'' = None"
    by (rule instance_dict_setstate_new)
  show ?thesis
    using unset_bookkeeping_attribute_raises
      [OF d, of "''access''" 7 "''py__name__''" "[]" "[]"] n
    by simp
qed

section \<open>Decoding reconciles handles by id\<close>

lemma getattr_id_built:
  "getattr (hp @ [setstate new_object i]) (length hp) ''id'' = Inr (AId i)"
  by (simp add: getattr_def deref_def instance_dict_def setstate_def new_object_def)

lemma load_build_cases:
  "load_build s ep hp i =
     (case handles ep i of
        Some a \<Rightarrow> Inr (a, ep, hp @ [setstate new_object i])
      | None \<Rightarrow> Inr (length hp, ep\<lparr>handles := (handles ep)(i \<mapsto> length hp)\<rparr>,
                   hp @ [\<lparr>h_access = None, h_subprocess = Some s, h_id = Some i\<rparr>]))"
  by (simp add: load_build_def build_def alloc_def Unpickler_get_access_handle_def
      getattr_id_built get_access_handle_def add_subprocess_def deref_def
      set_access_handle_def getattr_def instance_dict_def setstate_def new_object_def
      split: option.splits)









lemma decode_twice_example:
  "map_sum id fst (load_response 0 (EvaluatorProcess_init 1) [] (False, VHandle 5)) =
     Inr (False, VHandle 0)"
  "map_sum id fst (load_response 0
      (EvaluatorProcess_init 1\<lparr>handles := [5 \<mapsto> 0]\<rparr>)
      [\<lparr>h_access = None, h_subprocess = Some 0, h_id = Some 5\<rparr>]
      (False, VList [VInt 3, VHandle 5])) =
     Inr (False, VList [VInt 3, VHandle 0])"
  by (simp_all add: load_response_def load_build_cases EvaluatorProcess_init_def)

section \<open>One wrapper for each executable\<close>

lemma cache_inv_init: "cache_inv module_init"
  by (simp add: cache_inv_def module_init_def)

lemma cache_inv_card:
  assumes "cache_inv g"
  shows "card (dom (subprocesses g)) = length (objects g)"
proof -
  from assms have inj: "inj_on (subprocesses g) (dom (subprocesses g))"
    and img: "subprocesses g ` dom (subprocesses g) = Some ` {..<length (objects g)}"
    by (simp_all add: cache_inv_def)
  have "card (dom (subprocesses g)) = card (subprocesses g ` dom (subprocesses g))"
    by (rule card_image [OF inj, symmetric])
  also have "\<dots> = card (Some ` {..<length (objects g)})"
    by (simp only: img)
  also have "\<dots> = card {..<length (objects g)}"
    by (rule card_image) simp
  finally show ?thesis by simp
qed

lemma get_subprocess_inv:
  assumes inv: "cache_inv g" and r: "get_subprocess mp pd e g = (sub, g')"
  shows "cache_inv g' \<and> subprocesses g' e = Some sub \<and>
         subprocesses g \<subseteq>\<^sub>m subprocesses g' \<and>
         dom (subprocesses g') = insert e (dom (subprocesses g))"
proof (cases "subprocesses g e")
  case (Some a)
  with r have "g' = g" "sub = a" by (auto simp: get_subprocess_def)
  with inv Some show ?thesis by (auto simp: insert_absorb)
next
  case None
  let ?n = "length (objects g)"
  let ?c = "subprocesses g"
  from None r have g': "sub = ?n" "subprocesses g' = ?c(e \<mapsto> ?n)"
    "length (objects g') = Suc ?n"
    by (auto simp: get_subprocess_def Let_def)
  have notin: "Some ?n \<notin> ?c ` dom ?c"
    using inv by (auto simp: cache_inv_def)
  have e: "e \<notin> dom ?c" using None by auto
  have img: "(?c(e \<mapsto> ?n)) ` dom ?c = ?c ` dom ?c"
    using e by (auto simp: image_iff)
  have inj: "inj_on (?c(e \<mapsto> ?n)) (insert e (dom ?c))"
  proof (rule inj_onI)
    fix x y assume x: "x \<in> insert e (dom ?c)" and y: "y \<in> insert e (dom ?c)"
      and eq: "(?c(e \<mapsto> ?n)) x = (?c(e \<mapsto> ?n)) y"
    show "x = y"
    proof (cases "x = e"; cases "y = e")
      assume "x \<noteq> e" "y \<noteq> e"
      with x y eq inv show ?thesis by (auto simp: cache_inv_def dest: inj_onD)
    next
      assume "x = e" "y \<noteq> e"
      with y eq have "?c y = Some ?n" "y \<in> dom ?c" by auto
      with notin show ?thesis by (metis image_eqI)
    next
      assume "x \<noteq> e" "y = e"
      with x eq have "?c x = Some ?n" "x \<in> dom ?c" by auto
      with notin show ?thesis by (metis image_eqI)
    qed simp
  qed
  have "(?c(e \<mapsto> ?n)) ` insert e (dom ?c) =
      insert ((?c(e \<mapsto> ?n)) e) ((?c(e \<mapsto> ?n)) ` dom ?c)"
    by (rule image_insert)
  also have "\<dots> = insert (Some ?n) (?c ` dom ?c)"
    by (simp only: img) simp
  also have "\<dots> = Some ` {..<Suc ?n}"
    using inv by (auto simp: cache_inv_def lessThan_Suc)
  finally have im: "(?c(e \<mapsto> ?n)) ` insert e (dom ?c) = Some ` {..<Suc ?n}" .
  have "cache_inv g'"
    unfolding cache_inv_def g' using inv inj im by (simp add: cache_inv_def)
  then show ?thesis using g' None by (auto simp: map_le_def)
qed

lemma get_subprocesses_inv:
  assumes "cache_inv g" "get_subprocesses mp pd exes g = (subs, g')"
  shows "cache_inv g' \<and> length subs = length exes \<and>
         (\<forall>i<length exes. subprocesses g' (exes ! i) = Some (subs ! i)) \<and>
         subprocesses g \<subseteq>\<^sub>m subprocesses g' \<and>
         dom (subprocesses g') = dom (subprocesses g) \<union> set exes"
  using assms
proof (induction exes arbitrary: g subs g')
  case Nil
  then show ?case by simp
next
  case (Cons e exes)
  obtain sub g1 where s: "get_subprocess mp pd e g = (sub, g1)" by (cases "get_subprocess mp pd e g")
  obtain rest g2 where t: "get_subprocesses mp pd exes g1 = (rest, g2)"
    by (cases "get_subprocesses mp pd exes g1")
  from Cons.prems(2) s t have eq: "subs = sub # rest" "g' = g2" by simp_all
  note a = get_subprocess_inv [OF Cons.prems(1) s]
  from a have inv1: "cache_inv g1" by simp
  note b = Cons.IH [OF inv1 t]
  from a b have e: "subprocesses g2 e = Some sub"
    by (auto simp: map_le_def dom_def)
  have ix: "subprocesses g2 ((e # exes) ! i) = Some ((sub # rest) ! i)" if "i < length (e # exes)" for i
    using that e b by (cases i) auto
  have le: "subprocesses g \<subseteq>\<^sub>m subprocesses g2"
    using a b by (blast intro: map_le_trans)
  show ?case unfolding eq using b ix le a by auto
qed

text \<open>
  Claim C8. After any sequence of calls of \<^verbatim>\<open>get_subprocess\<close> from the empty
  cache: two calls return the same wrapper exactly when they name the same executable,
  the number of wrappers created is the number of distinct executables, and one more call
  for any of these executables returns the wrapper it returned before and changes
  nothing.
\<close>

theorem get_subprocess_one_wrapper_per_executable:
  assumes "get_subprocesses mp pd exes module_init = (subs, g)"
  shows "length subs = length exes \<and>
         (\<forall>i<length exes. \<forall>j<length exes. (subs ! i = subs ! j) = (exes ! i = exes ! j)) \<and>
         length (objects g) = card (set exes) \<and>
         (\<forall>i<length exes. get_subprocess mp pd (exes ! i) g = (subs ! i, g))"
proof -
  note r = get_subprocesses_inv [OF cache_inv_init assms]
  have inv: "cache_inv g" and len: "length subs = length exes"
    and at: "\<And>i. i < length exes \<Longrightarrow> subprocesses g (exes ! i) = Some (subs ! i)"
    and dom: "dom (subprocesses g) = set exes"
    using r by (simp_all add: module_init_def)
  have same: "(subs ! i = subs ! j) = (exes ! i = exes ! j)"
    if "i < length exes" "j < length exes" for i j
  proof
    assume "subs ! i = subs ! j"
    with at that have "subprocesses g (exes ! i) = subprocesses g (exes ! j)" by simp
    moreover have "exes ! i \<in> dom (subprocesses g)" "exes ! j \<in> dom (subprocesses g)"
      using dom that by simp_all
    ultimately show "exes ! i = exes ! j"
      using inv by (auto simp: cache_inv_def dest: inj_onD)
  next
    assume "exes ! i = exes ! j"
    with at [OF that(1)] at [OF that(2)] show "subs ! i = subs ! j" by simp
  qed
  have card: "length (objects g) = card (set exes)"
    using cache_inv_card [OF inv] dom by simp
  have again: "get_subprocess mp pd (exes ! i) g = (subs ! i, g)" if "i < length exes" for i
    using at [OF that] by (simp add: get_subprocess_def)
  show ?thesis using len same card again by simp
qed

lemma get_subprocesses_example:
  "fst (get_subprocesses mp pd [''python3'', ''python2'', ''python3''] module_init) = [0, 1, 0]"
  by (simp add: get_subprocess_def module_init_def Let_def)

theorem get_subprocess_one_wrapper_per_executable_witness:
  "fst (get_subprocesses ''m'' ''p'' [''python3'', ''python2'', ''python3''] module_init) = [0, 1, 0] \<and>
   length (objects (snd (get_subprocesses ''m'' ''p'' [''python3'', ''python2'', ''python3''] module_init))) = 2 \<and>
   fst (get_subprocess ''m'' ''p'' ''python3''
     (snd (get_subprocesses ''m'' ''p'' [''python3'', ''python2'', ''python3''] module_init))) = 0"
proof -
  define exes where "exes = [''python3'', ''python2'', ''python3'']"
  define r where "r = get_subprocesses ''m'' ''p'' exes module_init"
  have e: "get_subprocesses ''m'' ''p'' exes module_init = (fst r, snd r)"
    by (simp add: r_def)
  note t = get_subprocess_one_wrapper_per_executable [OF e]
  have f: "fst r = [0, 1, 0]"
    unfolding r_def exes_def by (rule get_subprocesses_example)
  have c: "card (set exes) = 2"
    unfolding exes_def card_set by simp
  from t c have l: "length (objects (snd r)) = 2" by simp
  from t have "0 < length exes \<longrightarrow>
      get_subprocess ''m'' ''p'' (exes ! 0) (snd r) = (fst r ! 0, snd r)"
    by blast
  then have g: "fst (get_subprocess ''m'' ''p'' ''python3'' (snd r)) = 0"
    using f by (simp add: exes_def)
  from f l g show ?thesis
    unfolding r_def exes_def by blast
qed

section \<open>Dispatch of a call with a session\<close>













lemma run_example:
  "Listener_run echo listener_example (Some 1) (Some ''f'') [VHandle 1, VInt 3] [(''k'', VHandle 1)] =
     echo ''f'' [EvaluatorArg 1, Val (VHandle 0), Val (VInt 3)] [(''k'', VHandle 0)] listener_example"
  by (simp add: Listener_run_def Listener_get_evaluator_def listener_example_def
      exchange_handle_def getattr_def deref_def instance_dict_def setstate_def new_object_def
      get_access_handle_def AccessHandle_init_def)



section \<open>The dispatch loop and exceptions\<close>










section \<open>Failures travel back to the caller\<close>





end
